theory Spec2Isabelle
  imports Complex_Main
begin

section \<open>Element types, amplitudes and errors\<close>

text \<open>
  The element types a tensor can carry. The operations of \<^verbatim>\<open>custom_ops.cc\<close> name three
  of them (\<^verbatim>\<open>complex64\<close>, \<^verbatim>\<open>complex128\<close>, \<^verbatim>\<open>int32\<close>); the others stand for the
  element types the operations do not offer.
\<close>

datatype DataType =
    DT_FLOAT | DT_DOUBLE | DT_INT32 | DT_INT64 | DT_BOOL | DT_COMPLEX64 | DT_COMPLEX128

datatype DeviceType = DEVICE_CPU | DEVICE_GPU

text \<open>
  A component of an amplitude is a floating-point value: a finite number, an infinity or
  a NaN. The kernel only ever produces the constants 0 and 1, so rounding plays no part.
  An amplitude \<^verbatim>\<open>T\<close> (\<^verbatim>\<open>complex64\<close> or \<^verbatim>\<open>complex128\<close>) is a pair of components.
\<close>

datatype scalar = Finite real | PosInf | NegInf | NaN

datatype amplitude = Amp (re: scalar) (im: scalar)

text \<open>The constructor call \<^verbatim>\<open>T(x, y)\<close> of the source, on numeric literals.\<close>

definition T :: "real \<Rightarrow> real \<Rightarrow> amplitude" where
  "T x y = Amp (Finite x) (Finite y)"

text \<open>
  What can go wrong. \<open>OutOfBounds\<close> is a read or write past the end of an array
  (undefined behaviour in C++), \<open>CheckFailed\<close> a fatal runtime check of the host
  library, \<open>InvalidArgument\<close> and \<open>NotFound\<close> the two ways the host runtime
  refuses a node before any kernel runs.
\<close>

datatype error = OutOfBounds | CheckFailed | InvalidArgument | NotFound

section \<open>Operation registrations (custom\_ops.cc)\<close>

text \<open>
  A tensor shape as shape inference sees it: the rank may be unknown, and so may each
  dimension.
\<close>

datatype ShapeHandle = UnknownShape | Shape "nat option list"

record InferenceContext =
  ic_inputs :: "ShapeHandle list"
  ic_outputs :: "ShapeHandle list"

text \<open>\<^verbatim>\<open>c->input(i)\<close> and \<^verbatim>\<open>c->set_output(i, s)\<close>; an index out of range is an error.\<close>

definition ic_input :: "InferenceContext \<Rightarrow> nat \<Rightarrow> error + ShapeHandle" where
  "ic_input c i = (if i < length (ic_inputs c) then Inr (ic_inputs c ! i) else Inl OutOfBounds)"

definition ic_set_output :: "InferenceContext \<Rightarrow> nat \<Rightarrow> ShapeHandle \<Rightarrow> error + InferenceContext" where
  "ic_set_output c i s =
     (if i < length (ic_outputs c) then Inr (c\<lparr>ic_outputs := (ic_outputs c)[i := s]\<rparr>)
      else Inl OutOfBounds)"

text \<open>
  The type of an argument is either the value of a type attribute (\<^verbatim>\<open>"in: T"\<close>) or a
  fixed element type (\<^verbatim>\<open>"controls: int32"\<close>). An attribute is either a type restricted
  to a list of element types (\<^verbatim>\<open>"T: {complex64, complex128}"\<close>) or an integer
  (\<^verbatim>\<open>"nqubits: int"\<close>).
\<close>

datatype ArgType = TypeAttr string | FixedType DataType

datatype AttrType = AttrTypeIn "DataType list" | AttrInt

record OpDef =
  op_name :: string
  op_attrs :: "(string \<times> AttrType) list"
  op_inputs :: "(string \<times> ArgType) list"
  op_outputs :: "(string \<times> ArgType) list"
  op_shape_fn :: "(InferenceContext \<Rightarrow> error + InferenceContext) option"

text \<open>The builder calls of the source; each appends to the definition under construction.\<close>

definition REGISTER_OP :: "string \<Rightarrow> OpDef" where
  "REGISTER_OP NAME =
     \<lparr>op_name = NAME, op_attrs = [], op_inputs = [], op_outputs = [], op_shape_fn = None\<rparr>"

definition Attr :: "string \<Rightarrow> AttrType \<Rightarrow> OpDef \<Rightarrow> OpDef" where
  "Attr a ty d = d\<lparr>op_attrs := op_attrs d @ [(a, ty)]\<rparr>"

definition Input :: "string \<Rightarrow> ArgType \<Rightarrow> OpDef \<Rightarrow> OpDef" where
  "Input a ty d = d\<lparr>op_inputs := op_inputs d @ [(a, ty)]\<rparr>"

definition Output :: "string \<Rightarrow> ArgType \<Rightarrow> OpDef \<Rightarrow> OpDef" where
  "Output a ty d = d\<lparr>op_outputs := op_outputs d @ [(a, ty)]\<rparr>"

definition SetShapeFn :: "(InferenceContext \<Rightarrow> error + InferenceContext) \<Rightarrow> OpDef \<Rightarrow> OpDef" where
  "SetShapeFn f d = d\<lparr>op_shape_fn := Some f\<rparr>"

text \<open>
  The shape function both registrations pass to \<^verbatim>\<open>SetShapeFn\<close>:
  \<^verbatim>\<open>c->set_output(0, c->input(0)); return Status::OK();\<close>
\<close>

definition shape_fn :: "InferenceContext \<Rightarrow> error + InferenceContext" where
  "shape_fn c = (case ic_input c 0 of Inl e \<Rightarrow> Inl e | Inr s \<Rightarrow> ic_set_output c 0 s)"

text \<open>A chain of builder calls, applied in the order written.\<close>

definition chain :: "OpDef \<Rightarrow> (OpDef \<Rightarrow> OpDef) list \<Rightarrow> OpDef" where
  "chain d steps = fold (\<lambda>step acc. step acc) steps d"

definition InitialState_op :: OpDef where
  "InitialState_op =
     chain (REGISTER_OP ''InitialState'')
       [Attr ''T'' (AttrTypeIn [DT_COMPLEX64, DT_COMPLEX128]),
        Input ''in'' (TypeAttr ''T''),
        Output ''out'' (TypeAttr ''T''),
        SetShapeFn shape_fn]"

definition REGISTER_GATE_OP :: "string \<Rightarrow> OpDef" where
  "REGISTER_GATE_OP NAME =
     chain (REGISTER_OP NAME)
       [Attr ''T'' (AttrTypeIn [DT_COMPLEX64, DT_COMPLEX128]),
        Input ''state'' (TypeAttr ''T''),
        Input ''gate'' (TypeAttr ''T''),
        Input ''controls'' (FixedType DT_INT32),
        Attr ''nqubits'' AttrInt,
        Attr ''target'' AttrInt,
        Output ''out'' (TypeAttr ''T''),
        SetShapeFn shape_fn]"

definition gate_op_names :: "string list" where
  "gate_op_names = [''ApplyGate'', ''ApplyX'', ''ApplyY'', ''ApplyZ'', ''ApplyZPow'']"

text \<open>Every operation the file registers, in the order of the source.\<close>

definition op_registry :: "OpDef list" where
  "op_registry = InitialState_op # map REGISTER_GATE_OP gate_op_names"

definition LookUp :: "string \<Rightarrow> OpDef option" where
  "LookUp NAME = find (\<lambda>d. op_name d = NAME) op_registry"

text \<open>
  How the host runtime reads a registration. The value given to a type attribute must be
  one of the element types its declaration lists; an argument's element type is the
  value of the attribute it names, or its fixed type.
\<close>

definition allowed_types :: "OpDef \<Rightarrow> string \<Rightarrow> DataType list option" where
  "allowed_types d a =
     (case map_of (op_attrs d) a of Some (AttrTypeIn ts) \<Rightarrow> Some ts | _ \<Rightarrow> None)"

definition ValidateAttrValue :: "OpDef \<Rightarrow> string \<Rightarrow> DataType \<Rightarrow> error + unit" where
  "ValidateAttrValue d a t =
     (case allowed_types d a of
        None \<Rightarrow> Inl InvalidArgument
      | Some ts \<Rightarrow> if t \<in> set ts then Inr () else Inl InvalidArgument)"

fun arg_type :: "DataType \<Rightarrow> ArgType \<Rightarrow> DataType" where
  "arg_type t (TypeAttr a) = t"
| "arg_type t (FixedType ft) = ft"

text \<open>The integer attributes of a registration: those that are not type parameters.\<close>

definition int_attrs :: "OpDef \<Rightarrow> string list" where
  "int_attrs d = map fst (filter (\<lambda>(a, ty). ty = AttrInt) (op_attrs d))"

section \<open>The InitialState kernel (initial\_state\_kernels.cc)\<close>

text \<open>
  The CPU specialisation of the functor: \<^verbatim>\<open>inout[0] = T(1, 0)\<close>. The array
  \<^verbatim>\<open>inout\<close> points to is passed in and returned updated; a write at index 0 of an
  array with no element is out of bounds.
\<close>

definition InitialStateFunctor_CPU :: "amplitude list \<Rightarrow> error + amplitude list" where
  "InitialStateFunctor_CPU inout =
     (if 0 < length inout then Inr (inout[0 := T 1 0]) else Inl OutOfBounds)"

text \<open>
  A tensor is a handle: an element type and the address of a buffer in the store. Copying
  a tensor copies the handle, and both copies name the same buffer.
\<close>

record Tensor =
  t_dtype :: DataType
  t_buf :: nat

type_synonym store = "nat \<rightharpoonup> amplitude list"

record OpKernelContext =
  inputs :: "Tensor list"
  outputs :: "Tensor option list"
  heap :: store

definition input :: "OpKernelContext \<Rightarrow> nat \<Rightarrow> error + Tensor" where
  "input ctx i = (if i < length (inputs ctx) then Inr (inputs ctx ! i) else Inl OutOfBounds)"

definition set_output :: "OpKernelContext \<Rightarrow> nat \<Rightarrow> Tensor \<Rightarrow> error + OpKernelContext" where
  "set_output ctx i t =
     (if i < length (outputs ctx) then Inr (ctx\<lparr>outputs := (outputs ctx)[i := Some t]\<rparr>)
      else Inl OutOfBounds)"

text \<open>
  \<^verbatim>\<open>tensor.flat<T>().data()\<close>: the host library checks that the tensor's element type
  is \<^verbatim>\<open>T\<close> (a fatal check) and gives the address of the buffer's first element.
\<close>

definition flat_data :: "DataType \<Rightarrow> Tensor \<Rightarrow> error + nat" where
  "flat_data ty t = (if t_dtype t = ty then Inr (t_buf t) else Inl CheckFailed)"

text \<open>
  A functor, as \<^verbatim>\<open>Compute\<close> calls it: given the array at the pointer it returns the
  array as it leaves it. The GPU functor is declared \<^verbatim>\<open>extern\<close> and is a parameter here.
\<close>

type_synonym kernel_functor = "amplitude list \<Rightarrow> error + amplitude list"

text \<open>
  \<^verbatim>\<open>InitialStateOp<Device, T>::Compute\<close>: take input 0, run the functor on its buffer,
  make the same tensor output 0.
\<close>

definition Compute :: "kernel_functor \<Rightarrow> DataType \<Rightarrow> OpKernelContext \<Rightarrow> error + OpKernelContext" where
  "Compute f ty ctx =
     (case input ctx 0 of
        Inl e \<Rightarrow> Inl e
      | Inr input_tensor \<Rightarrow>
          (case flat_data ty input_tensor of
             Inl e \<Rightarrow> Inl e
           | Inr p \<Rightarrow>
               (case heap ctx p of
                  None \<Rightarrow> Inl OutOfBounds
                | Some inout \<Rightarrow>
                    (case f inout of
                       Inl e \<Rightarrow> Inl e
                     | Inr inout' \<Rightarrow>
                         set_output (ctx\<lparr>heap := (heap ctx)(p \<mapsto> inout')\<rparr>) 0 input_tensor))))"

text \<open>
  Kernel registrations. \<^verbatim>\<open>GOOGLE_CUDA\<close> is a preprocessor macro: undefined
  (\<open>None\<close>) or defined with a value. The GPU registrations stand under
  \<^verbatim>\<open>#ifdef GOOGLE_CUDA\<close>.
\<close>

record KernelDef =
  k_op :: string
  k_device :: DeviceType
  k_type :: DataType

definition REGISTER_CPU :: "DataType \<Rightarrow> KernelDef" where
  "REGISTER_CPU ty = \<lparr>k_op = ''InitialState'', k_device = DEVICE_CPU, k_type = ty\<rparr>"

definition REGISTER_GPU :: "DataType \<Rightarrow> KernelDef" where
  "REGISTER_GPU ty = \<lparr>k_op = ''InitialState'', k_device = DEVICE_GPU, k_type = ty\<rparr>"

definition kernel_registry :: "int option \<Rightarrow> KernelDef list" where
  "kernel_registry GOOGLE_CUDA =
     [REGISTER_CPU DT_COMPLEX64, REGISTER_CPU DT_COMPLEX128] @
     (if GOOGLE_CUDA \<noteq> None then [REGISTER_GPU DT_COMPLEX64, REGISTER_GPU DT_COMPLEX128] else [])"

definition FindKernel :: "int option \<Rightarrow> string \<Rightarrow> DeviceType \<Rightarrow> DataType \<Rightarrow> KernelDef option" where
  "FindKernel GOOGLE_CUDA NAME dev ty =
     find (\<lambda>k. k_op k = NAME \<and> k_device k = dev \<and> k_type k = ty) (kernel_registry GOOGLE_CUDA)"

text \<open>The functor a registered kernel instantiates, by its device.\<close>

fun functor_of :: "kernel_functor \<Rightarrow> DeviceType \<Rightarrow> kernel_functor" where
  "functor_of gpu DEVICE_CPU = InitialStateFunctor_CPU"
| "functor_of gpu DEVICE_GPU = gpu"

section \<open>Invoking the operation\<close>

text \<open>
  How an invocation ends: the kernel ran to its end, the host runtime refused the node
  before the kernel ran (the context it was given is handed back), or the kernel went
  wrong while running and nothing is known of the state.
\<close>

datatype outcome =
    Completed OpKernelContext
  | Rejected error OpKernelContext
  | Crashed error

text \<open>
  An \<^verbatim>\<open>InitialState\<close> node names a device and a value for the attribute \<^verbatim>\<open>T\<close>. The
  host runtime looks the operation up, checks the attribute against its declaration and
  the input tensors against the declared argument types, finds a kernel registered for
  the device and the type, and only then calls \<^verbatim>\<open>Compute\<close>.
\<close>

definition inputs_match :: "OpDef \<Rightarrow> DataType \<Rightarrow> OpKernelContext \<Rightarrow> bool" where
  "inputs_match d ty ctx =
     (map t_dtype (inputs ctx) = map (\<lambda>(a, aty). arg_type ty aty) (op_inputs d))"

definition run_InitialState ::
  "int option \<Rightarrow> kernel_functor \<Rightarrow> DeviceType \<Rightarrow> DataType \<Rightarrow> OpKernelContext \<Rightarrow> outcome" where
  "run_InitialState GOOGLE_CUDA gpu dev ty ctx =
     (case LookUp ''InitialState'' of
        None \<Rightarrow> Rejected NotFound ctx
      | Some d \<Rightarrow>
          (case ValidateAttrValue d ''T'' ty of
             Inl e \<Rightarrow> Rejected e ctx
           | Inr u \<Rightarrow>
               if \<not> inputs_match d ty ctx then Rejected InvalidArgument ctx
               else
                 (case FindKernel GOOGLE_CUDA ''InitialState'' dev ty of
                    None \<Rightarrow> Rejected NotFound ctx
                  | Some k \<Rightarrow>
                      (case Compute (functor_of gpu (k_device k)) (k_type k) ctx of
                         Inl e \<Rightarrow> Crashed e
                       | Inr ctx' \<Rightarrow> Completed ctx'))))"

text \<open>
  The lengths an amplitude vector of a register can have: \<open>2 ^ n\<close> for a qubit count
  \<open>n\<close>. As \<open>n < 2 ^ n\<close>, the qubit count is searched below the length.
\<close>

definition valid_state_length :: "nat \<Rightarrow> bool" where
  "valid_state_length len = list_ex (\<lambda>n. len = 2 ^ n) [0..<len]"

text \<open>
  Modelled from the spec: the kernel registrations of the five gate operations, whose
  kernel files are not among the sources. The spec restricts every operation to the two
  complex precisions and says that both device variants must be registered for both
  supported precisions wherever an accelerator backend is compiled in. As for
  InitialState, the CPU kernels are taken to be registered in every build.
\<close>

definition gate_kernel_registry :: "int option \<Rightarrow> KernelDef list" where
  "gate_kernel_registry GOOGLE_CUDA =
     concat (map (\<lambda>NAME.
       [\<lparr>k_op = NAME, k_device = DEVICE_CPU, k_type = DT_COMPLEX64\<rparr>,
        \<lparr>k_op = NAME, k_device = DEVICE_CPU, k_type = DT_COMPLEX128\<rparr>] @
       (if GOOGLE_CUDA \<noteq> None
        then [\<lparr>k_op = NAME, k_device = DEVICE_GPU, k_type = DT_COMPLEX64\<rparr>,
              \<lparr>k_op = NAME, k_device = DEVICE_GPU, k_type = DT_COMPLEX128\<rparr>]
        else [])) gate_op_names)"

text \<open>
  All kernel registrations together: those of \<^verbatim>\<open>initial_state_kernels.cc\<close> and those
  modelled for the gate operations, and the search for a kernel among them.
\<close>

definition all_kernels :: "int option \<Rightarrow> KernelDef list" where
  "all_kernels GOOGLE_CUDA = kernel_registry GOOGLE_CUDA @ gate_kernel_registry GOOGLE_CUDA"

definition FindRegisteredKernel ::
  "int option \<Rightarrow> string \<Rightarrow> DeviceType \<Rightarrow> DataType \<Rightarrow> KernelDef option" where
  "FindRegisteredKernel GOOGLE_CUDA NAME dev ty =
     find (\<lambda>k. k_op k = NAME \<and> k_device k = dev \<and> k_type k = ty) (all_kernels GOOGLE_CUDA)"

section \<open>Evaluating the registrations\<close>

lemma InitialState_op_eval:
  "InitialState_op =
     \<lparr>op_name = ''InitialState'',
      op_attrs = [(''T'', AttrTypeIn [DT_COMPLEX64, DT_COMPLEX128])],
      op_inputs = [(''in'', TypeAttr ''T'')],
      op_outputs = [(''out'', TypeAttr ''T'')],
      op_shape_fn = Some shape_fn\<rparr>"
  by (simp add: InitialState_op_def chain_def REGISTER_OP_def Attr_def Input_def Output_def
      SetShapeFn_def)

lemma REGISTER_GATE_OP_eval:
  "REGISTER_GATE_OP NAME =
     \<lparr>op_name = NAME,
      op_attrs = [(''T'', AttrTypeIn [DT_COMPLEX64, DT_COMPLEX128]),
                  (''nqubits'', AttrInt), (''target'', AttrInt)],
      op_inputs = [(''state'', TypeAttr ''T''), (''gate'', TypeAttr ''T''),
                   (''controls'', FixedType DT_INT32)],
      op_outputs = [(''out'', TypeAttr ''T'')],
      op_shape_fn = Some shape_fn\<rparr>"
  by (simp add: REGISTER_GATE_OP_def chain_def REGISTER_OP_def Attr_def Input_def Output_def
      SetShapeFn_def)

section \<open>The CPU functor\<close>

lemma valid_state_length_power: "valid_state_length (2 ^ n)"
  unfolding valid_state_length_def list_ex_iff by (rule bexI[of _ n]) simp_all

text \<open>
  C1, as amended. For every qubit count \<open>n\<close> and every amplitude vector of length
  \<open>2 ^ n\<close> with arbitrary prior contents, InitialState returns with element 0 equal to
  \<open>(1,0)\<close> and with every element at an index \<open>i > 0\<close> at its prior value: those
  elements are never written. So the elements at \<open>i > 0\<close> are all \<open>(0,0)\<close> afterwards
  exactly when they all were before the call.
\<close>

theorem InitialState_ground_state_iff_zeroed:
  assumes "length buf = 2 ^ n"
  shows "\<exists>buf'. InitialStateFunctor_CPU buf = Inr buf' \<and> length buf' = 2 ^ n \<and>
           buf' ! 0 = T 1 0 \<and>
           (\<forall>i. 0 < i \<and> i < length buf \<longrightarrow> buf' ! i = buf ! i) \<and>
           ((\<forall>i. 0 < i \<and> i < length buf' \<longrightarrow> buf' ! i = T 0 0) =
            (\<forall>i. 0 < i \<and> i < length buf \<longrightarrow> buf ! i = T 0 0))"
proof -
  from assms have pos: "0 < length buf" by simp
  then have run: "InitialStateFunctor_CPU buf = Inr (buf[0 := T 1 0])"
    by (simp add: InitialStateFunctor_CPU_def)
  have len: "length (buf[0 := T 1 0]) = 2 ^ n" using assms by simp
  have head: "buf[0 := T 1 0] ! 0 = T 1 0" using pos by simp
  have tail: "\<forall>i. 0 < i \<and> i < length buf \<longrightarrow> buf[0 := T 1 0] ! i = buf ! i"
    by simp
  have ground: "(\<forall>i. 0 < i \<and> i < length (buf[0 := T 1 0]) \<longrightarrow> buf[0 := T 1 0] ! i = T 0 0) =
      (\<forall>i. 0 < i \<and> i < length buf \<longrightarrow> buf ! i = T 0 0)"
    by simp
  from run len head tail ground show ?thesis by blast
qed

theorem InitialState_ground_state_iff_zeroed_witness:
  "length [Amp NaN PosInf, T 0 0] = 2 ^ 1 \<and>
   (\<exists>buf'. InitialStateFunctor_CPU [Amp NaN PosInf, T 0 0] = Inr buf' \<and>
      buf' ! 0 = T 1 0 \<and> buf' ! 1 = T 0 0) \<and>
   length [Amp NaN PosInf, Amp NegInf (Finite 2)] = 2 ^ 1 \<and>
   (\<exists>buf'. InitialStateFunctor_CPU [Amp NaN PosInf, Amp NegInf (Finite 2)] = Inr buf' \<and>
      buf' ! 0 = T 1 0 \<and> buf' ! 1 = Amp NegInf (Finite 2))"
proof -
  have l1: "length [Amp NaN PosInf, T 0 0] = 2 ^ 1" by simp
  have l2: "length [Amp NaN PosInf, Amp NegInf (Finite 2)] = 2 ^ 1" by simp
  from InitialState_ground_state_iff_zeroed [OF l1] obtain b1 where
    b1: "InitialStateFunctor_CPU [Amp NaN PosInf, T 0 0] = Inr b1" "b1 ! 0 = T 1 0"
      "\<forall>i. 0 < i \<and> i < length [Amp NaN PosInf, T 0 0] \<longrightarrow> b1 ! i = [Amp NaN PosInf, T 0 0] ! i"
    by blast
  from b1(3) have t1: "b1 ! 1 = T 0 0" by simp
  from InitialState_ground_state_iff_zeroed [OF l2] obtain b2 where
    b2: "InitialStateFunctor_CPU [Amp NaN PosInf, Amp NegInf (Finite 2)] = Inr b2" "b2 ! 0 = T 1 0"
      "\<forall>i. 0 < i \<and> i < length [Amp NaN PosInf, Amp NegInf (Finite 2)] \<longrightarrow>
         b2 ! i = [Amp NaN PosInf, Amp NegInf (Finite 2)] ! i"
    by blast
  from b2(3) have t2: "b2 ! 1 = Amp NegInf (Finite 2)" by simp
  from l1 l2 b1(1,2) t1 b2(1,2) t2 show ?thesis by blast
qed

text \<open>
  C1, as stated, fails: on a two-element vector (one qubit) holding garbage, the functor
  returns with element 1 still holding its garbage, not \<open>(0,0)\<close>.
\<close>

theorem InitialState_leaves_tail_counterexample:
  "length [Amp NaN NaN, Amp (Finite 7) NaN] = 2 ^ 1 \<and>
   InitialStateFunctor_CPU [Amp NaN NaN, Amp (Finite 7) NaN] = Inr [T 1 0, Amp (Finite 7) NaN] \<and>
   [T 1 0, Amp (Finite 7) NaN] ! 1 \<noteq> T 0 0"
  by (simp add: InitialStateFunctor_CPU_def T_def)

text \<open>
  C2. On every buffer with at least one element the CPU functor returns the buffer with
  element 0 overwritten: the length is the same and every element at an index \<open>i > 0\<close>
  has its prior value.
\<close>

theorem InitialStateFunctor_CPU_frame:
  assumes "1 \<le> length buf"
  shows "\<exists>buf'. InitialStateFunctor_CPU buf = Inr buf' \<and> buf' = buf[0 := T 1 0] \<and>
           length buf' = length buf \<and>
           (\<forall>i. 0 < i \<and> i < length buf \<longrightarrow> buf' ! i = buf ! i)"
  using assms by (cases buf) (simp_all add: InitialStateFunctor_CPU_def)

theorem InitialStateFunctor_CPU_frame_witness:
  "1 \<le> length [Amp NaN NaN, Amp PosInf (Finite 3)] \<and>
   (\<exists>buf'. InitialStateFunctor_CPU [Amp NaN NaN, Amp PosInf (Finite 3)] = Inr buf' \<and>
      buf' ! 1 = Amp PosInf (Finite 3))"
  using InitialStateFunctor_CPU_frame [of "[Amp NaN NaN, Amp PosInf (Finite 3)]"]
  by simp

text \<open>
  C8. The write at index 0 is in bounds for every buffer with at least one element, and
  so for every buffer of length \<open>2 ^ n\<close>, the lengths 1 (\<open>n = 0\<close>) and 2 (\<open>n = 1\<close>)
  among them: the functor returns and reports no out-of-bounds write.
\<close>

theorem InitialStateFunctor_CPU_in_bounds:
  "(1 \<le> length buf \<longrightarrow> (\<exists>buf'. InitialStateFunctor_CPU buf = Inr buf')) \<and>
   (length buf = 2 ^ n \<longrightarrow> (\<exists>buf'. InitialStateFunctor_CPU buf = Inr buf'))"
  by (auto simp add: InitialStateFunctor_CPU_def)

theorem InitialStateFunctor_CPU_in_bounds_witness:
  "length [Amp NaN NaN] = 2 ^ 0 \<and>
   (\<exists>buf'. InitialStateFunctor_CPU [Amp NaN NaN] = Inr buf') \<and>
   length [Amp NaN NaN, Amp NegInf NaN] = 2 ^ 1 \<and>
   (\<exists>buf'. InitialStateFunctor_CPU [Amp NaN NaN, Amp NegInf NaN] = Inr buf')"
  using InitialStateFunctor_CPU_in_bounds [of "[Amp NaN NaN]" 0]
    InitialStateFunctor_CPU_in_bounds [of "[Amp NaN NaN, Amp NegInf NaN]" 1]
  by simp

section \<open>Looking registrations up\<close>

lemma LookUp_InitialState: "LookUp ''InitialState'' = Some InitialState_op"
  by (simp add: LookUp_def op_registry_def InitialState_op_eval)

lemma LookUp_gate:
  "NAME \<in> set gate_op_names \<Longrightarrow> LookUp NAME = Some (REGISTER_GATE_OP NAME)"
  by (auto simp add: LookUp_def op_registry_def gate_op_names_def InitialState_op_eval
      REGISTER_GATE_OP_eval)

lemma op_registry_cases:
  "d \<in> set op_registry \<Longrightarrow>
   d = InitialState_op \<or> (\<exists>NAME. NAME \<in> set gate_op_names \<and> d = REGISTER_GATE_OP NAME)"
  by (auto simp add: op_registry_def)

lemma shape_fn_identity:
  assumes "0 < length (ic_inputs c)" and "0 < length (ic_outputs c)"
  shows "shape_fn c = Inr (c\<lparr>ic_outputs := (ic_outputs c)[0 := ic_inputs c ! 0]\<rparr>)"
  using assms by (simp add: shape_fn_def ic_input_def ic_set_output_def)

lemma Validate_InitialState:
  "ValidateAttrValue InitialState_op ''T'' ty =
     (if ty = DT_COMPLEX64 \<or> ty = DT_COMPLEX128 then Inr () else Inl InvalidArgument)"
  by (simp add: ValidateAttrValue_def allowed_types_def InitialState_op_eval)

lemma Validate_gate:
  "ValidateAttrValue (REGISTER_GATE_OP NAME) ''T'' ty =
     (if ty = DT_COMPLEX64 \<or> ty = DT_COMPLEX128 then Inr () else Inl InvalidArgument)"
  by (simp add: ValidateAttrValue_def allowed_types_def REGISTER_GATE_OP_eval)

lemma inputs_match_InitialState:
  "inputs_match InitialState_op ty ctx = (map t_dtype (inputs ctx) = [ty])"
  by (simp add: inputs_match_def InitialState_op_eval)

lemma FindKernel_CPU:
  "ty = DT_COMPLEX64 \<or> ty = DT_COMPLEX128 \<Longrightarrow>
   FindKernel cuda ''InitialState'' DEVICE_CPU ty = Some (REGISTER_CPU ty)"
  by (auto simp add: FindKernel_def kernel_registry_def REGISTER_CPU_def REGISTER_GPU_def)

lemma FindKernel_GPU:
  "ty = DT_COMPLEX64 \<or> ty = DT_COMPLEX128 \<Longrightarrow> cuda \<noteq> None \<Longrightarrow>
   FindKernel cuda ''InitialState'' DEVICE_GPU ty = Some (REGISTER_GPU ty)"
  by (auto simp add: FindKernel_def kernel_registry_def REGISTER_CPU_def REGISTER_GPU_def)

lemma FindKernel_GPU_absent:
  "FindKernel None ''InitialState'' DEVICE_GPU ty = None"
  by (auto simp add: FindKernel_def kernel_registry_def REGISTER_CPU_def REGISTER_GPU_def)

section \<open>Compute and the invocation\<close>

lemma Compute_returns:
  assumes "input ctx 0 = Inr t" and "0 < length (outputs ctx)" and "t_dtype t = ty"
    and "heap ctx (t_buf t) = Some inout" and "f inout = Inr inout'"
  shows "Compute f ty ctx =
           Inr (ctx\<lparr>heap := (heap ctx)(t_buf t \<mapsto> inout'),
                    outputs := (outputs ctx)[0 := Some t]\<rparr>)"
  using assms by (simp add: Compute_def flat_data_def set_output_def)

lemma run_rejects_type:
  assumes "ty \<noteq> DT_COMPLEX64" and "ty \<noteq> DT_COMPLEX128"
  shows "run_InitialState cuda gpu dev ty ctx = Rejected InvalidArgument ctx"
  using assms by (simp add: run_InitialState_def LookUp_InitialState Validate_InitialState)

lemma run_CPU:
  assumes "ty = DT_COMPLEX64 \<or> ty = DT_COMPLEX128"
    and "inputs ctx = [t]" and "t_dtype t = ty"
  shows "run_InitialState cuda gpu DEVICE_CPU ty ctx =
     (case Compute InitialStateFunctor_CPU ty ctx of
        Inl e \<Rightarrow> Crashed e | Inr ctx' \<Rightarrow> Completed ctx')"
  using assms
  by (simp add: run_InitialState_def LookUp_InitialState Validate_InitialState
      inputs_match_InitialState FindKernel_CPU REGISTER_CPU_def)

text \<open>
  C3. Whenever \<^verbatim>\<open>Compute\<close> is given an input tensor of the kernel's element type whose
  buffer is in the store, an output slot, and a functor that returns on that buffer, it
  returns, and output 0 is the very tensor handle that was input 0: it names the same
  buffer, which now holds what the functor left there. The store has the same buffers as
  before (nothing is allocated), and the inputs are as they were.
\<close>

theorem Compute_output_aliases_input:
  assumes "input ctx 0 = Inr t" and "0 < length (outputs ctx)" and "t_dtype t = ty"
    and "heap ctx (t_buf t) = Some inout" and "f inout = Inr inout'"
  shows "\<exists>ctx'. Compute f ty ctx = Inr ctx' \<and>
           outputs ctx' ! 0 = Some t \<and>
           heap ctx' (t_buf t) = Some inout' \<and>
           dom (heap ctx') = dom (heap ctx) \<and>
           inputs ctx' = inputs ctx"
proof -
  let ?ctx' = "ctx\<lparr>heap := (heap ctx)(t_buf t \<mapsto> inout'),
                   outputs := (outputs ctx)[0 := Some t]\<rparr>"
  have run: "Compute f ty ctx = Inr ?ctx'" using assms by (rule Compute_returns)
  have out: "outputs ?ctx' ! 0 = Some t" using assms(2) by simp
  have dom_eq: "dom (heap ?ctx') = dom (heap ctx)" using assms(4) by auto
  from run out dom_eq show ?thesis by simp
qed

theorem Compute_output_aliases_input_witness:
  "\<exists>ctx'. Compute InitialStateFunctor_CPU DT_COMPLEX64
      \<lparr>inputs = [\<lparr>t_dtype = DT_COMPLEX64, t_buf = 5\<rparr>], outputs = [None],
       heap = [5 \<mapsto> [Amp NaN NaN, T 0 0]]\<rparr> = Inr ctx' \<and>
     outputs ctx' ! 0 = Some \<lparr>t_dtype = DT_COMPLEX64, t_buf = 5\<rparr> \<and>
     heap ctx' 5 = Some [T 1 0, T 0 0] \<and>
     dom (heap ctx') = {5}"
  using Compute_output_aliases_input [of
      "\<lparr>inputs = [\<lparr>t_dtype = DT_COMPLEX64, t_buf = 5\<rparr>], outputs = [None],
        heap = [5 \<mapsto> [Amp NaN NaN, T 0 0]]\<rparr>"
      "\<lparr>t_dtype = DT_COMPLEX64, t_buf = 5\<rparr>" DT_COMPLEX64 "[Amp NaN NaN, T 0 0]"
      InitialStateFunctor_CPU "[T 1 0, T 0 0]"]
  by (auto simp add: input_def InitialStateFunctor_CPU_def)

text \<open>
  C9. The kernel validates nothing: the functor goes wrong exactly on the empty buffer,
  where the write at index 0 is out of bounds, and on every other buffer it overwrites
  element 0. The error is reachable from outside: an invocation on the CPU with a
  supported element type and an empty input tensor passes every check of the host
  runtime and ends in the out-of-bounds write inside \<^verbatim>\<open>Compute\<close>.
\<close>

theorem InitialState_empty_buffer_out_of_bounds:
  "(InitialStateFunctor_CPU buf = Inl OutOfBounds) = (buf = []) \<and>
   (InitialStateFunctor_CPU buf = Inr (buf[0 := T 1 0])) = (buf \<noteq> []) \<and>
   Compute InitialStateFunctor_CPU DT_COMPLEX64
     \<lparr>inputs = [\<lparr>t_dtype = DT_COMPLEX64, t_buf = 0\<rparr>], outputs = [None],
      heap = [0 \<mapsto> []]\<rparr> = Inl OutOfBounds \<and>
   run_InitialState cuda gpu DEVICE_CPU DT_COMPLEX64
     \<lparr>inputs = [\<lparr>t_dtype = DT_COMPLEX64, t_buf = 0\<rparr>], outputs = [None],
      heap = [0 \<mapsto> []]\<rparr> = Crashed OutOfBounds"
proof -
  let ?ctx = "\<lparr>inputs = [\<lparr>t_dtype = DT_COMPLEX64, t_buf = 0\<rparr>], outputs = [None],
      heap = [0 \<mapsto> []]\<rparr>"
  have a: "(InitialStateFunctor_CPU buf = Inl OutOfBounds) = (buf = [])"
    by (simp add: InitialStateFunctor_CPU_def)
  have b: "(InitialStateFunctor_CPU buf = Inr (buf[0 := T 1 0])) = (buf \<noteq> [])"
    by (simp add: InitialStateFunctor_CPU_def)
  have c: "Compute InitialStateFunctor_CPU DT_COMPLEX64 ?ctx = Inl OutOfBounds"
    by (simp add: Compute_def input_def flat_data_def InitialStateFunctor_CPU_def)
  have "run_InitialState cuda gpu DEVICE_CPU DT_COMPLEX64 ?ctx =
      (case Compute InitialStateFunctor_CPU DT_COMPLEX64 ?ctx of
        Inl e \<Rightarrow> Crashed e | Inr ctx' \<Rightarrow> Completed ctx')"
    by (rule run_CPU [where t = "\<lparr>t_dtype = DT_COMPLEX64, t_buf = 0\<rparr>"]) simp_all
  with c have d: "run_InitialState cuda gpu DEVICE_CPU DT_COMPLEX64 ?ctx = Crashed OutOfBounds"
    by simp
  from a b c d show ?thesis by blast
qed

text \<open>
  C6, as amended. An invocation of InitialState with an unsupported element type (a value
  of the attribute \<^verbatim>\<open>T\<close> other than \<^verbatim>\<open>complex64\<close> and \<^verbatim>\<open>complex128\<close>, or input tensors
  whose element types are not the one input of type \<^verbatim>\<open>T\<close>) is refused by the host
  runtime's check of the registration before the kernel runs, and the context, the
  amplitude buffer in it, is handed back unchanged. The length of the buffer is not
  checked: on the CPU every buffer with at least one element, whatever its length, is
  accepted and its element 0 overwritten.
\<close>

theorem run_InitialState_rejects_unsupported_type:
  "(ty \<noteq> DT_COMPLEX64 \<and> ty \<noteq> DT_COMPLEX128 \<longrightarrow>
      run_InitialState cuda gpu dev ty ctx = Rejected InvalidArgument ctx) \<and>
   (map t_dtype (inputs ctx) \<noteq> [ty] \<longrightarrow>
      run_InitialState cuda gpu dev ty ctx = Rejected InvalidArgument ctx) \<and>
   ((ty = DT_COMPLEX64 \<or> ty = DT_COMPLEX128) \<and> inputs ctx = [t] \<and> t_dtype t = ty \<and>
    0 < length (outputs ctx) \<and> heap ctx (t_buf t) = Some buf \<and> 1 \<le> length buf \<longrightarrow>
      run_InitialState cuda gpu DEVICE_CPU ty ctx =
        Completed (ctx\<lparr>heap := (heap ctx)(t_buf t \<mapsto> buf[0 := T 1 0]),
                       outputs := (outputs ctx)[0 := Some t]\<rparr>))"
proof (intro conjI impI)
  assume "ty \<noteq> DT_COMPLEX64 \<and> ty \<noteq> DT_COMPLEX128"
  then show "run_InitialState cuda gpu dev ty ctx = Rejected InvalidArgument ctx"
    by (simp add: run_rejects_type)
next
  assume "map t_dtype (inputs ctx) \<noteq> [ty]"
  then show "run_InitialState cuda gpu dev ty ctx = Rejected InvalidArgument ctx"
    by (simp add: run_InitialState_def LookUp_InitialState Validate_InitialState
        inputs_match_InitialState)
next
  assume h: "(ty = DT_COMPLEX64 \<or> ty = DT_COMPLEX128) \<and> inputs ctx = [t] \<and> t_dtype t = ty \<and>
    0 < length (outputs ctx) \<and> heap ctx (t_buf t) = Some buf \<and> 1 \<le> length buf"
  then have f: "InitialStateFunctor_CPU buf = Inr (buf[0 := T 1 0])"
    by (cases buf) (simp_all add: InitialStateFunctor_CPU_def)
  from h have i: "input ctx 0 = Inr t" by (simp add: input_def)
  from h i f have c: "Compute InitialStateFunctor_CPU ty ctx =
      Inr (ctx\<lparr>heap := (heap ctx)(t_buf t \<mapsto> buf[0 := T 1 0]),
               outputs := (outputs ctx)[0 := Some t]\<rparr>)"
    by (intro Compute_returns) simp_all
  from h have "run_InitialState cuda gpu DEVICE_CPU ty ctx =
      (case Compute InitialStateFunctor_CPU ty ctx of
        Inl e \<Rightarrow> Crashed e | Inr ctx' \<Rightarrow> Completed ctx')"
    by (intro run_CPU [where t = t]) simp_all
  with c show "run_InitialState cuda gpu DEVICE_CPU ty ctx =
        Completed (ctx\<lparr>heap := (heap ctx)(t_buf t \<mapsto> buf[0 := T 1 0]),
                       outputs := (outputs ctx)[0 := Some t]\<rparr>)"
    by simp
qed

theorem run_InitialState_rejects_unsupported_type_witness:
  "run_InitialState (Some 1) Inr DEVICE_GPU DT_FLOAT
     \<lparr>inputs = [\<lparr>t_dtype = DT_FLOAT, t_buf = 0\<rparr>], outputs = [None],
      heap = [0 \<mapsto> [Amp NaN NaN, Amp NaN NaN]]\<rparr> =
   Rejected InvalidArgument
     \<lparr>inputs = [\<lparr>t_dtype = DT_FLOAT, t_buf = 0\<rparr>], outputs = [None],
      heap = [0 \<mapsto> [Amp NaN NaN, Amp NaN NaN]]\<rparr> \<and>
   run_InitialState None Inr DEVICE_CPU DT_COMPLEX128
     \<lparr>inputs = [\<lparr>t_dtype = DT_COMPLEX64, t_buf = 0\<rparr>], outputs = [None],
      heap = [0 \<mapsto> [Amp NaN NaN, Amp NaN NaN]]\<rparr> =
   Rejected InvalidArgument
     \<lparr>inputs = [\<lparr>t_dtype = DT_COMPLEX64, t_buf = 0\<rparr>], outputs = [None],
      heap = [0 \<mapsto> [Amp NaN NaN, Amp NaN NaN]]\<rparr> \<and>
   run_InitialState None Inr DEVICE_CPU DT_COMPLEX128
     \<lparr>inputs = [\<lparr>t_dtype = DT_COMPLEX128, t_buf = 0\<rparr>], outputs = [None],
      heap = [0 \<mapsto> [Amp NaN NaN, Amp NaN NaN, Amp NaN NaN]]\<rparr> =
   Completed
     \<lparr>inputs = [\<lparr>t_dtype = DT_COMPLEX128, t_buf = 0\<rparr>],
      outputs = [Some \<lparr>t_dtype = DT_COMPLEX128, t_buf = 0\<rparr>],
      heap = [0 \<mapsto> [T 1 0, Amp NaN NaN, Amp NaN NaN]]\<rparr>"
  using run_InitialState_rejects_unsupported_type [of DT_FLOAT "Some 1" Inr DEVICE_GPU
      "\<lparr>inputs = [\<lparr>t_dtype = DT_FLOAT, t_buf = 0\<rparr>], outputs = [None],
        heap = [0 \<mapsto> [Amp NaN NaN, Amp NaN NaN]]\<rparr>"]
    run_InitialState_rejects_unsupported_type [of DT_COMPLEX128 None Inr DEVICE_CPU
      "\<lparr>inputs = [\<lparr>t_dtype = DT_COMPLEX64, t_buf = 0\<rparr>], outputs = [None],
        heap = [0 \<mapsto> [Amp NaN NaN, Amp NaN NaN]]\<rparr>"]
    run_InitialState_rejects_unsupported_type [of DT_COMPLEX128 None Inr DEVICE_CPU
      "\<lparr>inputs = [\<lparr>t_dtype = DT_COMPLEX128, t_buf = 0\<rparr>], outputs = [None],
        heap = [0 \<mapsto> [Amp NaN NaN, Amp NaN NaN, Amp NaN NaN]]\<rparr>"
      "\<lparr>t_dtype = DT_COMPLEX128, t_buf = 0\<rparr>" "[Amp NaN NaN, Amp NaN NaN, Amp NaN NaN]"]
  by simp

text \<open>
  C6, as stated, fails: a buffer of three amplitudes has the length of no register, yet
  the invocation is not refused; it completes, and the buffer has been written to.
\<close>

theorem run_InitialState_accepts_any_length_counterexample:
  "\<not> valid_state_length (length [Amp (Finite 5) (Finite 5), Amp (Finite 7) (Finite 7), Amp (Finite 9) (Finite 9)]) \<and>
   run_InitialState None Inr DEVICE_CPU DT_COMPLEX64
     \<lparr>inputs = [\<lparr>t_dtype = DT_COMPLEX64, t_buf = 0\<rparr>], outputs = [None],
      heap = [0 \<mapsto> [Amp (Finite 5) (Finite 5), Amp (Finite 7) (Finite 7), Amp (Finite 9) (Finite 9)]]\<rparr> =
   Completed
     \<lparr>inputs = [\<lparr>t_dtype = DT_COMPLEX64, t_buf = 0\<rparr>],
      outputs = [Some \<lparr>t_dtype = DT_COMPLEX64, t_buf = 0\<rparr>],
      heap = [0 \<mapsto> [T 1 0, Amp (Finite 7) (Finite 7), Amp (Finite 9) (Finite 9)]]\<rparr> \<and>
   [T 1 0, Amp (Finite 7) (Finite 7), Amp (Finite 9) (Finite 9)] \<noteq>
   [Amp (Finite 5) (Finite 5), Amp (Finite 7) (Finite 7), Amp (Finite 9) (Finite 9)]"
proof -
  let ?buf = "[Amp (Finite 5) (Finite 5), Amp (Finite 7) (Finite 7), Amp (Finite 9) (Finite 9)]"
  let ?t = "\<lparr>t_dtype = DT_COMPLEX64, t_buf = 0\<rparr>"
  let ?ctx = "\<lparr>inputs = [?t], outputs = [None], heap = [0 \<mapsto> ?buf]\<rparr>"
  have len: "\<not> valid_state_length (length ?buf)"
    by (simp add: valid_state_length_def upt_rec)
  have c: "Compute InitialStateFunctor_CPU DT_COMPLEX64 ?ctx =
      Inr \<lparr>inputs = [?t], outputs = [Some ?t],
           heap = [0 \<mapsto> [T 1 0, Amp (Finite 7) (Finite 7), Amp (Finite 9) (Finite 9)]]\<rparr>"
    by (simp add: Compute_def input_def flat_data_def InitialStateFunctor_CPU_def set_output_def)
  have "run_InitialState None Inr DEVICE_CPU DT_COMPLEX64 ?ctx =
      (case Compute InitialStateFunctor_CPU DT_COMPLEX64 ?ctx of
        Inl e \<Rightarrow> Crashed e | Inr ctx' \<Rightarrow> Completed ctx')"
    by (rule run_CPU [where t = ?t]) simp_all
  with c have d: "run_InitialState None Inr DEVICE_CPU DT_COMPLEX64 ?ctx =
      Completed \<lparr>inputs = [?t], outputs = [Some ?t],
           heap = [0 \<mapsto> [T 1 0, Amp (Finite 7) (Finite 7), Amp (Finite 9) (Finite 9)]]\<rparr>"
    by simp
  have ne: "[T 1 0, Amp (Finite 7) (Finite 7), Amp (Finite 9) (Finite 9)] \<noteq> ?buf"
    by (simp add: T_def)
  from len d ne show ?thesis by blast
qed

section \<open>The registrations\<close>

lemma op_registry_names:
  "map op_name op_registry =
     [''InitialState'', ''ApplyGate'', ''ApplyX'', ''ApplyY'', ''ApplyZ'', ''ApplyZPow'']"
  by (simp add: op_registry_def gate_op_names_def InitialState_op_eval REGISTER_GATE_OP_eval)

lemma InitialState_op_registered: "InitialState_op \<in> set op_registry"
  by (simp add: op_registry_def)

lemma gate_op_registered:
  "NAME \<in> set gate_op_names \<Longrightarrow> REGISTER_GATE_OP NAME \<in> set op_registry"
  by (simp add: op_registry_def)

text \<open>
  C4. For every registered operation (InitialState, ApplyGate, ApplyX, ApplyY, ApplyZ,
  ApplyZPow) and every inference context with the operation's numbers of inputs and
  outputs, the registered shape function returns, and the one output shape is the shape of
  input 0; the inputs are untouched. The declared element type of the output is that of
  input 0, whatever value the attribute \<^verbatim>\<open>T\<close> has. Only shapes are involved: no kernel
  runs.
\<close>

theorem shape_inference_identity:
  assumes "d \<in> set op_registry"
    and "length (ic_inputs c) = length (op_inputs d)"
    and "length (ic_outputs c) = length (op_outputs d)"
  shows "\<exists>f c'. op_shape_fn d = Some f \<and> f c = Inr c' \<and>
           ic_outputs c' = [ic_inputs c ! 0] \<and> ic_inputs c' = ic_inputs c \<and>
           map (\<lambda>(a, aty). arg_type ty aty) (op_outputs d) =
             [arg_type ty (snd (op_inputs d ! 0))]"
proof -
  from assms(1) consider (init) "d = InitialState_op"
    | (gate) NAME where "d = REGISTER_GATE_OP NAME"
    using op_registry_cases by blast
  then show ?thesis
  proof cases
    case init
    with assms(2,3) have len: "length (ic_inputs c) = 1" "length (ic_outputs c) = 1"
      by (simp_all add: InitialState_op_eval)
    then have "shape_fn c = Inr (c\<lparr>ic_outputs := (ic_outputs c)[0 := ic_inputs c ! 0]\<rparr>)"
      by (intro shape_fn_identity) simp_all
    moreover from len have "(ic_outputs c)[0 := ic_inputs c ! 0] = [ic_inputs c ! 0]"
      by (cases "ic_outputs c") simp_all
    ultimately show ?thesis using init by (simp add: InitialState_op_eval)
  next
    case gate
    with assms(2,3) have len: "length (ic_inputs c) = 3" "length (ic_outputs c) = 1"
      by (simp_all add: REGISTER_GATE_OP_eval)
    then have "shape_fn c = Inr (c\<lparr>ic_outputs := (ic_outputs c)[0 := ic_inputs c ! 0]\<rparr>)"
      by (intro shape_fn_identity) simp_all
    moreover from len have "(ic_outputs c)[0 := ic_inputs c ! 0] = [ic_inputs c ! 0]"
      by (cases "ic_outputs c") simp_all
    ultimately show ?thesis using gate by (simp add: REGISTER_GATE_OP_eval)
  qed
qed

theorem shape_inference_identity_witness:
  "(\<exists>f c'. op_shape_fn InitialState_op = Some f \<and>
      f \<lparr>ic_inputs = [Shape [Some 8]], ic_outputs = [UnknownShape]\<rparr> = Inr c' \<and>
      ic_outputs c' = [Shape [Some 8]]) \<and>
   (\<exists>f c'. op_shape_fn (REGISTER_GATE_OP ''ApplyZPow'') = Some f \<and>
      f \<lparr>ic_inputs = [Shape [None], Shape [Some 2, Some 2], Shape [Some 0]],
         ic_outputs = [UnknownShape]\<rparr> = Inr c' \<and>
      ic_outputs c' = [Shape [None]])"
proof -
  have a: "InitialState_op \<in> set op_registry" by (rule InitialState_op_registered)
  have b: "REGISTER_GATE_OP ''ApplyZPow'' \<in> set op_registry"
    by (rule gate_op_registered) (simp add: gate_op_names_def)
  show ?thesis
    using shape_inference_identity [OF a,
        of "\<lparr>ic_inputs = [Shape [Some 8]], ic_outputs = [UnknownShape]\<rparr>" DT_COMPLEX64]
      shape_inference_identity [OF b,
        of "\<lparr>ic_inputs = [Shape [None], Shape [Some 2, Some 2], Shape [Some 0]],
            ic_outputs = [UnknownShape]\<rparr>" DT_COMPLEX64]
    by (auto simp add: InitialState_op_eval REGISTER_GATE_OP_eval)
qed

lemma all_kernels_types:
  "k \<in> set (all_kernels cuda) \<Longrightarrow> k_type k = DT_COMPLEX64 \<or> k_type k = DT_COMPLEX128"
  by (auto simp add: all_kernels_def kernel_registry_def gate_kernel_registry_def
      REGISTER_CPU_def REGISTER_GPU_def split: if_splits)

lemma FindRegisteredKernel_unsupported:
  assumes "ty \<noteq> DT_COMPLEX64" and "ty \<noteq> DT_COMPLEX128"
  shows "FindRegisteredKernel cuda NAME dev ty = None"
  unfolding FindRegisteredKernel_def find_None_iff
  using assms all_kernels_types [of _ cuda] by auto

lemma FindRegisteredKernel_InitialState:
  "FindRegisteredKernel cuda ''InitialState'' dev ty = FindKernel cuda ''InitialState'' dev ty"
  by (simp add: FindRegisteredKernel_def FindKernel_def all_kernels_def kernel_registry_def
      gate_kernel_registry_def gate_op_names_def REGISTER_CPU_def REGISTER_GPU_def)

lemma FindRegisteredKernel_gate:
  assumes "NAME \<in> set gate_op_names" and "cuda \<noteq> None"
    and "ty = DT_COMPLEX64 \<or> ty = DT_COMPLEX128"
  shows "FindRegisteredKernel cuda NAME dev ty =
           Some \<lparr>k_op = NAME, k_device = dev, k_type = ty\<rparr>"
  using assms
  by (cases dev)
    (auto simp add: FindRegisteredKernel_def all_kernels_def kernel_registry_def
      gate_kernel_registry_def gate_op_names_def REGISTER_CPU_def REGISTER_GPU_def)

text \<open>
  C5. Every registered operation declares \<^verbatim>\<open>T\<close> as a type restricted to
  \<^verbatim>\<open>complex64\<close> and \<^verbatim>\<open>complex128\<close>, and the check of the attribute accepts exactly
  these two. No kernel of any operation is registered for any other element type, and an
  InitialState invocation with another element type is refused before the kernel runs.
  Whenever \<^verbatim>\<open>GOOGLE_CUDA\<close> is defined, every registered operation, InitialState and
  the five gate operations, has a kernel for both precisions on the CPU and on the GPU.
\<close>

theorem element_type_restricted_all_ops:
  "(d \<in> set op_registry \<longrightarrow>
      allowed_types d ''T'' = Some [DT_COMPLEX64, DT_COMPLEX128] \<and>
      (ValidateAttrValue d ''T'' ty = Inr ()) = (ty = DT_COMPLEX64 \<or> ty = DT_COMPLEX128) \<and>
      (ValidateAttrValue d ''T'' ty = Inl InvalidArgument) =
        (ty \<noteq> DT_COMPLEX64 \<and> ty \<noteq> DT_COMPLEX128)) \<and>
   (ty \<noteq> DT_COMPLEX64 \<and> ty \<noteq> DT_COMPLEX128 \<longrightarrow>
      FindKernel cuda NAME dev ty = None \<and>
      FindRegisteredKernel cuda NAME dev ty = None \<and>
      run_InitialState cuda gpu dev ty ctx = Rejected InvalidArgument ctx) \<and>
   (cuda \<noteq> None \<and> (ty = DT_COMPLEX64 \<or> ty = DT_COMPLEX128) \<longrightarrow>
      FindKernel cuda ''InitialState'' dev ty =
        Some \<lparr>k_op = ''InitialState'', k_device = dev, k_type = ty\<rparr>) \<and>
   (d \<in> set op_registry \<and> cuda \<noteq> None \<and> (ty = DT_COMPLEX64 \<or> ty = DT_COMPLEX128) \<longrightarrow>
      FindRegisteredKernel cuda (op_name d) dev ty =
        Some \<lparr>k_op = op_name d, k_device = dev, k_type = ty\<rparr>)"
proof -
  have attr: "allowed_types d ''T'' = Some [DT_COMPLEX64, DT_COMPLEX128] \<and>
      (ValidateAttrValue d ''T'' ty = Inr ()) = (ty = DT_COMPLEX64 \<or> ty = DT_COMPLEX128) \<and>
      (ValidateAttrValue d ''T'' ty = Inl InvalidArgument) =
        (ty \<noteq> DT_COMPLEX64 \<and> ty \<noteq> DT_COMPLEX128)"
    if reg: "d \<in> set op_registry"
  proof -
    from reg consider (init) "d = InitialState_op"
      | (gate) G where "d = REGISTER_GATE_OP G"
      using op_registry_cases by blast
    then have v: "ValidateAttrValue d ''T'' ty =
        (if ty = DT_COMPLEX64 \<or> ty = DT_COMPLEX128 then Inr () else Inl InvalidArgument)"
      by cases (simp_all add: Validate_InitialState Validate_gate)
    from reg consider (init) "d = InitialState_op"
      | (gate) G where "d = REGISTER_GATE_OP G"
      using op_registry_cases by blast
    then have al: "allowed_types d ''T'' = Some [DT_COMPLEX64, DT_COMPLEX128]"
      by cases (simp_all add: allowed_types_def InitialState_op_eval REGISTER_GATE_OP_eval)
    from v al show ?thesis by simp
  qed
  have none: "FindKernel cuda NAME dev ty = None \<and>
      FindRegisteredKernel cuda NAME dev ty = None \<and>
      run_InitialState cuda gpu dev ty ctx = Rejected InvalidArgument ctx"
    if bad: "ty \<noteq> DT_COMPLEX64 \<and> ty \<noteq> DT_COMPLEX128"
  proof -
    from bad have "FindKernel cuda NAME dev ty = None"
      by (auto simp add: FindKernel_def kernel_registry_def REGISTER_CPU_def REGISTER_GPU_def)
    moreover from bad have "FindRegisteredKernel cuda NAME dev ty = None"
      by (simp add: FindRegisteredKernel_unsupported)
    moreover from bad have "run_InitialState cuda gpu dev ty ctx = Rejected InvalidArgument ctx"
      by (simp add: run_rejects_type)
    ultimately show ?thesis by simp
  qed
  have init_kernel: "FindKernel cuda ''InitialState'' dev ty =
        Some \<lparr>k_op = ''InitialState'', k_device = dev, k_type = ty\<rparr>"
    if h: "cuda \<noteq> None \<and> (ty = DT_COMPLEX64 \<or> ty = DT_COMPLEX128)"
  proof (cases dev)
    case DEVICE_CPU
    with h show ?thesis by (simp add: FindKernel_CPU REGISTER_CPU_def)
  next
    case DEVICE_GPU
    with h show ?thesis by (simp add: FindKernel_GPU REGISTER_GPU_def)
  qed
  have every_kernel: "FindRegisteredKernel cuda (op_name d) dev ty =
        Some \<lparr>k_op = op_name d, k_device = dev, k_type = ty\<rparr>"
    if h: "d \<in> set op_registry \<and> cuda \<noteq> None \<and> (ty = DT_COMPLEX64 \<or> ty = DT_COMPLEX128)"
  proof -
    from h consider (init) "d = InitialState_op"
      | (gate) G where "G \<in> set gate_op_names" "d = REGISTER_GATE_OP G"
      using op_registry_cases by blast
    then show ?thesis
    proof cases
      case init
      with h init_kernel show ?thesis
        by (simp add: FindRegisteredKernel_InitialState InitialState_op_eval)
    next
      case gate
      with h show ?thesis
        by (simp add: FindRegisteredKernel_gate REGISTER_GATE_OP_eval)
    qed
  qed
  from attr none init_kernel every_kernel show ?thesis by blast
qed

theorem element_type_restricted_all_ops_witness:
  "InitialState_op \<in> set op_registry \<and>
   ValidateAttrValue InitialState_op ''T'' DT_FLOAT = Inl InvalidArgument \<and>
   REGISTER_GATE_OP ''ApplyGate'' \<in> set op_registry \<and>
   ValidateAttrValue (REGISTER_GATE_OP ''ApplyGate'') ''T'' DT_COMPLEX128 = Inr () \<and>
   FindKernel (Some 1) ''InitialState'' DEVICE_GPU DT_DOUBLE = None \<and>
   FindRegisteredKernel (Some 1) ''ApplyGate'' DEVICE_GPU DT_DOUBLE = None \<and>
   FindKernel (Some 1) ''InitialState'' DEVICE_GPU DT_COMPLEX128 =
     Some \<lparr>k_op = ''InitialState'', k_device = DEVICE_GPU, k_type = DT_COMPLEX128\<rparr> \<and>
   FindKernel (Some 1) ''InitialState'' DEVICE_CPU DT_COMPLEX64 =
     Some \<lparr>k_op = ''InitialState'', k_device = DEVICE_CPU, k_type = DT_COMPLEX64\<rparr> \<and>
   FindRegisteredKernel (Some 1) ''InitialState'' DEVICE_GPU DT_COMPLEX64 =
     Some \<lparr>k_op = ''InitialState'', k_device = DEVICE_GPU, k_type = DT_COMPLEX64\<rparr> \<and>
   FindRegisteredKernel (Some 1) ''ApplyGate'' DEVICE_GPU DT_COMPLEX128 =
     Some \<lparr>k_op = ''ApplyGate'', k_device = DEVICE_GPU, k_type = DT_COMPLEX128\<rparr>"
proof -
  have a: "InitialState_op \<in> set op_registry" by (rule InitialState_op_registered)
  have b: "REGISTER_GATE_OP ''ApplyGate'' \<in> set op_registry"
    by (rule gate_op_registered) (simp add: gate_op_names_def)
  show ?thesis
    using a b
      element_type_restricted_all_ops [of InitialState_op DT_FLOAT "Some 1" "''InitialState''"
        DEVICE_GPU]
      element_type_restricted_all_ops [of "REGISTER_GATE_OP ''ApplyGate''" DT_COMPLEX128 "Some 1"
        "''InitialState''" DEVICE_GPU]
      element_type_restricted_all_ops [of InitialState_op DT_DOUBLE "Some 1" "''ApplyGate''"
        DEVICE_GPU]
      element_type_restricted_all_ops [of InitialState_op DT_DOUBLE "Some 1" "''InitialState''"
        DEVICE_GPU]
      element_type_restricted_all_ops [of InitialState_op DT_COMPLEX64 "Some 1" "''InitialState''"
        DEVICE_CPU]
      element_type_restricted_all_ops [of InitialState_op DT_COMPLEX64 "Some 1" "''InitialState''"
        DEVICE_GPU]
    by (simp add: InitialState_op_eval REGISTER_GATE_OP_eval)
qed

text \<open>
  C7. Each of the five gate operations is registered under its name with exactly three
  inputs, \<^verbatim>\<open>state\<close> of type \<^verbatim>\<open>T\<close>, \<^verbatim>\<open>gate\<close> of type \<^verbatim>\<open>T\<close> and \<^verbatim>\<open>controls\<close> of type
  \<^verbatim>\<open>int32\<close>, with exactly two integer attributes, \<^verbatim>\<open>nqubits\<close> and \<^verbatim>\<open>target\<close> (the
  only other attribute is the type parameter \<^verbatim>\<open>T\<close> itself), and with one output,
  \<^verbatim>\<open>out\<close> of type \<^verbatim>\<open>T\<close>.
\<close>

theorem gate_op_signature:
  assumes "NAME \<in> set gate_op_names"
  shows "\<exists>d. LookUp NAME = Some d \<and> op_name d = NAME \<and>
           op_inputs d = [(''state'', TypeAttr ''T''), (''gate'', TypeAttr ''T''),
                          (''controls'', FixedType DT_INT32)] \<and>
           int_attrs d = [''nqubits'', ''target''] \<and>
           op_attrs d = [(''T'', AttrTypeIn [DT_COMPLEX64, DT_COMPLEX128]),
                         (''nqubits'', AttrInt), (''target'', AttrInt)] \<and>
           op_outputs d = [(''out'', TypeAttr ''T'')]"
  using LookUp_gate [OF assms] by (simp add: REGISTER_GATE_OP_eval int_attrs_def)

theorem gate_op_signature_witness:
  "''ApplyX'' \<in> set gate_op_names \<and>
   (\<exists>d. LookUp ''ApplyX'' = Some d \<and>
      map fst (op_inputs d) = [''state'', ''gate'', ''controls''] \<and>
      map (\<lambda>(a, aty). arg_type DT_COMPLEX64 aty) (op_inputs d) =
        [DT_COMPLEX64, DT_COMPLEX64, DT_INT32] \<and>
      int_attrs d = [''nqubits'', ''target''] \<and>
      map fst (op_outputs d) = [''out''])"
proof -
  have a: "''ApplyX'' \<in> set gate_op_names" by (simp add: gate_op_names_def)
  from gate_op_signature [OF a] obtain d where
    "LookUp ''ApplyX'' = Some d"
    "op_inputs d = [(''state'', TypeAttr ''T''), (''gate'', TypeAttr ''T''),
                          (''controls'', FixedType DT_INT32)]"
    "int_attrs d = [''nqubits'', ''target'']"
    "op_outputs d = [(''out'', TypeAttr ''T'')]"
    by blast
  with a show ?thesis by simp
qed

text \<open>
  C10. The registration of ApplyZPow is that of every gate operation but for the name:
  the same inputs, attributes, type restriction, outputs and shape function. Its
  \<^verbatim>\<open>gate\<close> input has the complex type \<^verbatim>\<open>T\<close>, and its only other inputs are the state
  and the \<^verbatim>\<open>int32\<close> controls: there is no separate real input for the phase.
\<close>

theorem ApplyZPow_registered_like_the_other_gates:
  assumes "NAME \<in> set gate_op_names"
  shows "\<exists>d z. LookUp NAME = Some d \<and> LookUp ''ApplyZPow'' = Some z \<and>
           d\<lparr>op_name := ''ApplyZPow''\<rparr> = z \<and>
           op_inputs z = op_inputs d \<and> op_attrs z = op_attrs d \<and>
           op_outputs z = op_outputs d \<and> op_shape_fn z = op_shape_fn d \<and>
           allowed_types z ''T'' = allowed_types d ''T'' \<and>
           op_inputs z = [(''state'', TypeAttr ''T''), (''gate'', TypeAttr ''T''),
                          (''controls'', FixedType DT_INT32)] \<and>
           map_of (op_inputs z) ''gate'' = Some (TypeAttr ''T'') \<and>
           allowed_types z ''T'' = Some [DT_COMPLEX64, DT_COMPLEX128]"
proof -
  have z: "LookUp ''ApplyZPow'' = Some (REGISTER_GATE_OP ''ApplyZPow'')"
    by (rule LookUp_gate) (simp add: gate_op_names_def)
  have d: "LookUp NAME = Some (REGISTER_GATE_OP NAME)" using assms by (rule LookUp_gate)
  have same: "(REGISTER_GATE_OP NAME)\<lparr>op_name := ''ApplyZPow''\<rparr> = REGISTER_GATE_OP ''ApplyZPow''"
    by (simp add: REGISTER_GATE_OP_eval)
  from z d same show ?thesis
    by (simp add: REGISTER_GATE_OP_eval allowed_types_def)
qed

theorem ApplyZPow_registered_like_the_other_gates_witness:
  "''ApplyGate'' \<in> set gate_op_names \<and>
   (\<exists>d z. LookUp ''ApplyGate'' = Some d \<and> LookUp ''ApplyZPow'' = Some z \<and>
      d\<lparr>op_name := ''ApplyZPow''\<rparr> = z \<and>
      map_of (op_inputs z) ''gate'' = Some (TypeAttr ''T''))"
proof -
  have a: "''ApplyGate'' \<in> set gate_op_names" by (simp add: gate_op_names_def)
  from ApplyZPow_registered_like_the_other_gates [OF a] a show ?thesis by blast
qed

end
